theory Spec2Isabelle
  imports Main
begin

section \<open>The cache files of inadyn (\<^verbatim>\<open>src/cache.c\<close>)\<close>

text \<open>
  \<^verbatim>\<open>cache.c\<close> seeds every DNS alias of the configuration from its own cache file, or
  from a DNS lookup when that file cannot be opened, and writes an alias's address back to
  its cache file. The embedding below follows the C functions one by one. Character
  buffers are modelled by the C string they hold (the characters before the first NUL),
  pointers to structures by the structures themselves, returned updated, and the calls
  to \<^verbatim>\<open>logit\<close> are left out: they print, and change nothing that the code reads.
\<close>

subsection \<open>Data: \<^verbatim>\<open>ddns.h\<close> as far as \<^verbatim>\<open>cache.c\<close> uses it\<close>

text \<open>
  Modelled from the spec: the header \<^verbatim>\<open>ddns.h\<close>, which declares the structures, is
  not among the sources. \<^verbatim>\<open>cache.c\<close> uses three fields of \<^verbatim>\<open>ddns_alias_t\<close>:
  \<^verbatim>\<open>name\<close>, \<^verbatim>\<open>address\<close> (for the specification a string bounded by
  \<^verbatim>\<open>MAX_ADDRESS_LEN\<close>, so a buffer of that many bytes) and \<^verbatim>\<open>last_update\<close>
  (a \<^verbatim>\<open>time_t\<close>).
\<close>

record ddns_alias =
  name :: string
  address :: string
  last_update :: int

text \<open>
  \<^verbatim>\<open>ddns_info_t\<close>: \<^verbatim>\<open>system_name\<close> is \<^verbatim>\<open>info->system->name\<close>, the list
  \<^verbatim>\<open>aliases\<close> is the array \<^verbatim>\<open>info->alias\<close> up to \<^verbatim>\<open>info->alias_count\<close>.
\<close>

record ddns_info =
  system_name :: string
  aliases :: "ddns_alias list"

text \<open>\<^verbatim>\<open>ddns_t\<close>: the array \<^verbatim>\<open>ctx->info\<close> up to \<^verbatim>\<open>ctx->info_count\<close>.\<close>

record ddns =
  info :: "ddns_info list"

subsection \<open>The environment: constants of \<^verbatim>\<open>ddns.h\<close>, resolver and file system\<close>

text \<open>A socket address as \<^verbatim>\<open>getaddrinfo\<close> returns it; the code only hands it on.\<close>

type_synonym sockaddr = nat

text \<open>
  The outcome of \<^verbatim>\<open>getaddrinfo\<close>: a nonzero error code, or the list \<^verbatim>\<open>result\<close>,
  which POSIX makes non-empty on success (the code reads \<^verbatim>\<open>result->ai_addr\<close>
  unchecked); an unknown name is the error \<^verbatim>\<open>EAI_NONAME\<close>.
\<close>

datatype gai_result = GaiError int | GaiOk sockaddr "sockaddr list"

text \<open>
  The header \<^verbatim>\<open>ddns.h\<close> is not part of the sources at hand, so its constants are
  parameters: \<^verbatim>\<open>MAX_ADDRESS_LEN\<close>, the expansion of the format \<^verbatim>\<open>CACHE_FILE\<close> at a
  name, and \<^verbatim>\<open>RC_INVALID_POINTER\<close>. The other fields are what the C library answers:
  \<^verbatim>\<open>lookup\<close> is \<^verbatim>\<open>getaddrinfo\<close> with the hints of \<^verbatim>\<open>nslookup\<close>, \<^verbatim>\<open>numerichost\<close>
  the numeric form of a socket address (\<open>None\<close> when the conversion fails),
  \<^verbatim>\<open>can_write\<close> says whether \<^verbatim>\<open>fopen(path, "w")\<close> succeeds, and \<^verbatim>\<open>room\<close>
  is the number of bytes that a file opened for writing at a path takes before writes
  to it fail (disk full, quota, I/O error).
\<close>

record env =
  MAX_ADDRESS_LEN :: nat
  CACHE_FILE :: "string \<Rightarrow> string"
  RC_INVALID_POINTER :: int
  lookup :: "string \<Rightarrow> gai_result"
  numerichost :: "sockaddr \<Rightarrow> string option"
  can_write :: "string \<Rightarrow> bool"
  room :: "string \<Rightarrow> nat"

text \<open>
  A file that can be opened for reading: its bytes, and what \<^verbatim>\<open>fstat\<close> reports as
  \<^verbatim>\<open>st_mtime\<close> (\<open>None\<close> when \<^verbatim>\<open>fstat\<close> fails).
\<close>

record stored_file =
  content :: string
  st_mtime :: "int option"

text \<open>
  The calls that reach the resolver and the file system by name, in the order the code
  makes them: \<^verbatim>\<open>res_init()\<close>, \<^verbatim>\<open>fopen(path, "r")\<close>, \<^verbatim>\<open>fopen(path, "w")\<close>
  and \<^verbatim>\<open>getaddrinfo(name, ...)\<close>.
\<close>

datatype event = Res_init | Fopen_r string | Fopen_w string | Getaddrinfo string

text \<open>
  The state outside the program: the files that \<^verbatim>\<open>fopen(path, "r")\<close> can open, by
  path; the wall clock, which stamps a file when it is written; the calls made so far.
\<close>

record world =
  files :: "string \<rightharpoonup> stored_file"
  clock :: int
  trace :: "event list"

subsection \<open>The C library calls\<close>

definition NUL :: char where
  "NUL = CHR 0x00"

definition newline :: char where
  "newline = CHR 0x0A"

text \<open>The C string held by a buffer with these bytes.\<close>

definition cstr :: "string \<Rightarrow> string" where
  "cstr s = takeWhile (\<lambda>c. c \<noteq> NUL) s"

text \<open>\<^verbatim>\<open>snprintf(buf, n, ...)\<close>: the expansion, cut to \<^verbatim>\<open>n - 1\<close> characters.\<close>

definition snprintf :: "nat \<Rightarrow> string \<Rightarrow> string" where
  "snprintf n s = take (n - 1) (cstr s)"

text \<open>
  \<^verbatim>\<open>strncpy(dst, src, n)\<close>, read back as a C string. Every source string in
  \<^verbatim>\<open>cache.c\<close> is shorter than \<^verbatim>\<open>n\<close>, so the terminator is always copied.
\<close>

definition strncpy :: "nat \<Rightarrow> string \<Rightarrow> string" where
  "strncpy n src = take n (cstr src)"

text \<open>Reading a line: at most \<open>k\<close> characters, up to and including the first newline.\<close>

fun read_line :: "nat \<Rightarrow> string \<Rightarrow> string" where
  "read_line 0 cs = []"
| "read_line (Suc k) [] = []"
| "read_line (Suc k) (c # cs) = (if c = newline then [c] else c # read_line k cs)"

text \<open>
  \<^verbatim>\<open>fgets(buf, n, fp)\<close> on a file just opened: \<open>None\<close> is the null pointer, returned
  at end of file when nothing was read.
\<close>

definition fgets :: "nat \<Rightarrow> string \<Rightarrow> string option" where
  "fgets n cs = (if n = 0 \<or> cs = [] then None else Some (read_line (n - 1) cs))"

text \<open>
  \<^verbatim>\<open>getnameinfo(sa, salen, host, hostlen, NULL, 0, NI_NUMERICHOST)\<close>: the numeric form,
  when there is one and it fits the buffer with its terminator.
\<close>

definition getnameinfo :: "env \<Rightarrow> sockaddr \<Rightarrow> nat \<Rightarrow> string option" where
  "getnameinfo e sa hostlen =
     (case numerichost e sa of
        None \<Rightarrow> None
      | Some s \<Rightarrow> if length (cstr s) < hostlen then Some (cstr s) else None)"

text \<open>\<^verbatim>\<open>fopen(path, "r")\<close>: the file, or \<open>None\<close> for the null pointer.\<close>

definition fopen_r :: "string \<Rightarrow> world \<Rightarrow> stored_file option \<times> world" where
  "fopen_r path w = (files w path, w\<lparr>trace := trace w @ [Fopen_r path]\<rparr>)"

text \<open>
  \<^verbatim>\<open>fopen(path, "w")\<close>: where the environment allows it, the file is created or
  truncated to no bytes and stamped with the current time.
\<close>

definition fopen_w :: "env \<Rightarrow> string \<Rightarrow> world \<Rightarrow> bool \<times> world" where
  "fopen_w e path w =
     (let w1 = w\<lparr>trace := trace w @ [Fopen_w path]\<rparr> in
      if can_write e path
      then (True, w1\<lparr>files := (files w1)(path \<mapsto> \<lparr>content = [], st_mtime = Some (clock w1)\<rparr>)\<rparr>)
      else (False, w1))"

text \<open>
  \<^verbatim>\<open>fprintf(fp, "%s", s)\<close> on the file just opened at \<open>path\<close>, followed by
  \<^verbatim>\<open>fclose\<close>: the bytes of the C string reach the file as far as there is room for
  them, and the file is stamped again. Both calls report a failed write, and
  \<^verbatim>\<open>write_cache_file\<close> looks at neither result, so the model returns none.
\<close>

definition fprintf_s :: "env \<Rightarrow> string \<Rightarrow> string \<Rightarrow> world \<Rightarrow> world" where
  "fprintf_s e path s w =
     (case files w path of
        None \<Rightarrow> w
      | Some f \<Rightarrow>
          w\<lparr>files := (files w)(path \<mapsto>
               \<lparr>content = content f @ take (room e path) (cstr s), st_mtime = Some (clock w)\<rparr>)\<rparr>)"

definition res_init :: "world \<Rightarrow> world" where
  "res_init w = w\<lparr>trace := trace w @ [Res_init]\<rparr>"

subsection \<open>The functions of \<^verbatim>\<open>cache.c\<close>\<close>

text \<open>
  \<^verbatim>\<open>nslookup\<close>: one call of \<^verbatim>\<open>getaddrinfo\<close>; the return value is 1 when that call
  fails and 0 otherwise, whether or not \<^verbatim>\<open>getnameinfo\<close> converts the first result.
\<close>

definition nslookup :: "env \<Rightarrow> ddns_alias \<Rightarrow> world \<Rightarrow> int \<times> ddns_alias \<times> world" where
  "nslookup e a w =
     (let w1 = w\<lparr>trace := trace w @ [Getaddrinfo (name a)]\<rparr> in
      case lookup e (name a) of
        GaiOk sa rest \<Rightarrow>
          (case getnameinfo e sa (MAX_ADDRESS_LEN e) of
             Some s \<Rightarrow> (0, a\<lparr>address := strncpy (MAX_ADDRESS_LEN e) s\<rparr>, w1)
           | None \<Rightarrow> (0, a, w1))
      | GaiError err \<Rightarrow> (1, a, w1))"

text \<open>The path of an alias's cache file, as both \<^verbatim>\<open>read_one\<close> and \<^verbatim>\<open>write_cache_file\<close> build it.\<close>

definition cache_path :: "env \<Rightarrow> ddns_alias \<Rightarrow> string" where
  "cache_path e a = snprintf 256 (CACHE_FILE e (name a))"

definition read_one :: "env \<Rightarrow> ddns_alias \<Rightarrow> bool \<Rightarrow> world \<Rightarrow> ddns_alias \<times> world" where
  "read_one e a0 nonslookup w =
     (let a = a0\<lparr>last_update := 0, address := []\<rparr> in
      case fopen_r (cache_path e a) w of
        (None, w1) \<Rightarrow>
          if nonslookup then (a, w1)
          else (case nslookup e a w1 of (rc, a', w2) \<Rightarrow> (a', w2))
      | (Some f, w1) \<Rightarrow>
          (let a1 = (case fgets (MAX_ADDRESS_LEN e) (content f) of
                       Some line \<Rightarrow> a\<lparr>address := strncpy (MAX_ADDRESS_LEN e) line\<rparr>
                     | None \<Rightarrow> a);
               a2 = (case st_mtime f of
                       Some t \<Rightarrow> a1\<lparr>last_update := t\<rparr>
                     | None \<Rightarrow> a1)
           in (a2, w1)))"

text \<open>The inner loop of \<^verbatim>\<open>read_cache_file\<close>, over the aliases of one \<^verbatim>\<open>info\<close>.\<close>

fun read_aliases :: "env \<Rightarrow> ddns_alias list \<Rightarrow> bool \<Rightarrow> world \<Rightarrow> ddns_alias list \<times> world" where
  "read_aliases e [] nonslookup w = ([], w)"
| "read_aliases e (a # rest) nonslookup w =
     (case read_one e a nonslookup w of
        (a', w1) \<Rightarrow>
          (case read_aliases e rest nonslookup w1 of
             (rest', w2) \<Rightarrow> (a' # rest', w2)))"

text \<open>The exception for tunnelbroker.net: \<^verbatim>\<open>!strcmp(info->system->name, "ipv6tb@he.net")\<close>.\<close>

definition nonslookup_of :: "ddns_info \<Rightarrow> bool" where
  "nonslookup_of i = (system_name i = ''ipv6tb@he.net'')"

text \<open>The outer loop, over \<^verbatim>\<open>ctx->info\<close>.\<close>

fun read_infos :: "env \<Rightarrow> ddns_info list \<Rightarrow> world \<Rightarrow> ddns_info list \<times> world" where
  "read_infos e [] w = ([], w)"
| "read_infos e (i # rest) w =
     (case read_aliases e (aliases i) (nonslookup_of i) w of
        (as', w1) \<Rightarrow>
          (case read_infos e rest w1 of
             (rest', w2) \<Rightarrow> (i\<lparr>aliases := as'\<rparr> # rest', w2)))"

text \<open>
  \<^verbatim>\<open>read_cache_file\<close>: \<open>None\<close> is the null pointer. \<^verbatim>\<open>res_init\<close> is called before
  the pointer is tested.
\<close>

definition read_cache_file :: "env \<Rightarrow> ddns option \<Rightarrow> world \<Rightarrow> int \<times> ddns option \<times> world" where
  "read_cache_file e ctx w =
     (let w1 = res_init w in
      case ctx of
        None \<Rightarrow> (RC_INVALID_POINTER e, None, w1)
      | Some c \<Rightarrow>
          (case read_infos e (info c) w1 of
             (infos', w2) \<Rightarrow> (0, Some (c\<lparr>info := infos'\<rparr>), w2)))"

text \<open>
  \<^verbatim>\<open>write_cache_file\<close>: the address is written without a newline, and 0 is returned
  once \<^verbatim>\<open>fopen\<close> has succeeded, whatever became of the bytes. The alias is only
  read; it is returned as it came.
\<close>

definition write_cache_file :: "env \<Rightarrow> ddns_alias \<Rightarrow> world \<Rightarrow> int \<times> ddns_alias \<times> world" where
  "write_cache_file e a w =
     (let path = cache_path e a in
      case fopen_w e path w of
        (True, w1) \<Rightarrow> (0, a, fprintf_s e path (address a) w1)
      | (False, w1) \<Rightarrow> (1, a, w1))"

subsection \<open>Reading the trace\<close>

text \<open>The names handed to \<^verbatim>\<open>getaddrinfo\<close>, in order: one entry for each call.\<close>

definition lookups :: "event list \<Rightarrow> string list" where
  "lookups evs = concat (map (\<lambda>ev. case ev of Getaddrinfo n \<Rightarrow> [n] | _ \<Rightarrow> []) evs)"

text \<open>
  The calls that reading one alias costs, told from the files alone: the \<^verbatim>\<open>fopen\<close>, and
  a lookup when that fails and lookups are allowed. That \<^verbatim>\<open>read_one\<close> makes just
  these calls is lemma \<open>read_one_events\<close> below.
\<close>

definition alias_events :: "env \<Rightarrow> world \<Rightarrow> bool \<Rightarrow> ddns_alias \<Rightarrow> event list" where
  "alias_events e w nonslookup a =
     Fopen_r (cache_path e a) #
     (if files w (cache_path e a) = None \<and> \<not> nonslookup then [Getaddrinfo (name a)] else [])"

definition pass_events :: "env \<Rightarrow> world \<Rightarrow> ddns_info list \<Rightarrow> event list" where
  "pass_events e w infos =
     concat (map (\<lambda>i. concat (map (alias_events e w (nonslookup_of i)) (aliases i))) infos)"

subsection \<open>A sample installation\<close>

text \<open>
  Concrete values to run the functions on: a buffer of 46 bytes, cache files under
  \<^verbatim>\<open>/var/run/inadyn\<close>, a resolver that knows two names and can print the address of
  one of them, and a state directory in which one path cannot be written and another
  has no room left.
\<close>

definition demo_env :: env where
  "demo_env =
     \<lparr>MAX_ADDRESS_LEN = 46,
      CACHE_FILE = (\<lambda>n. ''/var/run/inadyn/'' @ n @ ''.cache''),
      RC_INVALID_POINTER = 2,
      lookup = (\<lambda>n. if n = ''new.example.com'' then GaiOk 1 [7]
                    else if n = ''odd.example.com'' then GaiOk 2 []
                    else GaiError (- 2)),
      numerichost = (\<lambda>sa. if sa = 1 then Some ''198.51.100.4'' else None),
      can_write = (\<lambda>p. p \<noteq> ''/var/run/inadyn/locked.example.com.cache''),
      room = (\<lambda>p. if p = ''/var/run/inadyn/full.example.com.cache'' then 0 else 4096)\<rparr>"

text \<open>
  Two cache files, one of them empty, and a file left by an earlier version, which kept
  one cache file for all names.
\<close>

definition demo_world :: world where
  "demo_world =
     \<lparr>files =
        [''/var/run/inadyn/home.example.com.cache'' \<mapsto>
           \<lparr>content = ''203.0.113.7'', st_mtime = Some 1700000000\<rparr>,
         ''/var/run/inadyn/empty.example.com.cache'' \<mapsto>
           \<lparr>content = [], st_mtime = Some 1700000500\<rparr>,
         ''/var/run/inadyn/inadyn.cache'' \<mapsto>
           \<lparr>content = ''192.0.2.1'', st_mtime = Some 1600000000\<rparr>],
      clock = 1700001000,
      trace = []\<rparr>"

definition stale :: "string \<Rightarrow> ddns_alias" where
  "stale n = \<lparr>name = n, address = ''10.9.8.7'', last_update = 5\<rparr>"

definition demo_ctx :: ddns where
  "demo_ctx =
     \<lparr>info =
        [\<lparr>system_name = ''default@dyndns.org'',
          aliases = [stale ''home.example.com'', stale ''new.example.com'',
                     stale ''gone.example.com'', stale ''empty.example.com'',
                     stale ''odd.example.com'']\<rparr>,
         \<lparr>system_name = ''ipv6tb@he.net'',
          aliases = [stale ''tunnel.example.com'']\<rparr>]\<rparr>"

text \<open>An address of two lines.\<close>

definition two_lines :: ddns_alias where
  "two_lines = \<lparr>name = ''home.example.com'', address = [CHR ''a'', newline, CHR ''b''], last_update = 0\<rparr>"

text \<open>What seeding makes of the sample configuration, and the calls it makes on the way.\<close>

definition demo_seeded :: ddns where
  "demo_seeded =
     \<lparr>info =
        [\<lparr>system_name = ''default@dyndns.org'',
          aliases =
            [\<lparr>name = ''home.example.com'', address = ''203.0.113.7'', last_update = 1700000000\<rparr>,
             \<lparr>name = ''new.example.com'', address = ''198.51.100.4'', last_update = 0\<rparr>,
             \<lparr>name = ''gone.example.com'', address = [], last_update = 0\<rparr>,
             \<lparr>name = ''empty.example.com'', address = [], last_update = 1700000500\<rparr>,
             \<lparr>name = ''odd.example.com'', address = [], last_update = 0\<rparr>]\<rparr>,
         \<lparr>system_name = ''ipv6tb@he.net'',
          aliases = [\<lparr>name = ''tunnel.example.com'', address = [], last_update = 0\<rparr>]\<rparr>]\<rparr>"

definition demo_calls :: "event list" where
  "demo_calls =
     [Res_init,
      Fopen_r ''/var/run/inadyn/home.example.com.cache'',
      Fopen_r ''/var/run/inadyn/new.example.com.cache'',
      Getaddrinfo ''new.example.com'',
      Fopen_r ''/var/run/inadyn/gone.example.com.cache'',
      Getaddrinfo ''gone.example.com'',
      Fopen_r ''/var/run/inadyn/empty.example.com.cache'',
      Fopen_r ''/var/run/inadyn/odd.example.com.cache'',
      Getaddrinfo ''odd.example.com'',
      Fopen_r ''/var/run/inadyn/tunnel.example.com.cache'']"

text \<open>A configuration of one name, which has no cache file of its own.\<close>

definition legacy_ctx :: ddns where
  "legacy_ctx =
     \<lparr>info = [\<lparr>system_name = ''default@dyndns.org'', aliases = [stale ''gone.example.com'']\<rparr>]\<rparr>"

section \<open>Properties\<close>

subsection \<open>Strings and buffers\<close>

lemma cstr_id: "NUL \<notin> set s \<Longrightarrow> cstr s = s"
  by (auto simp: cstr_def)

lemma cstr_length: "length (cstr s) \<le> length s"
  by (simp add: cstr_def length_takeWhile_le)

lemma cstr_no_NUL: "NUL \<notin> set (cstr s)"
  unfolding cstr_def by (induction s) auto

lemma read_line_length: "length (read_line k s) \<le> k"
  by (induction k s rule: read_line.induct) auto

lemma read_line_id:
  "length s \<le> k \<Longrightarrow> newline \<notin> set (butlast s) \<Longrightarrow> read_line k s = s"
proof (induction k s rule: read_line.induct)
  case (3 k c cs)
  then show ?case by (cases cs) (auto split: if_splits)
qed auto

lemma strncpy_short: "length (cstr s) \<le> n \<Longrightarrow> strncpy n s = cstr s"
  by (simp add: strncpy_def)

lemma fgets_strncpy:
  "(case fgets n cs of Some line \<Rightarrow> strncpy n line | None \<Rightarrow> []) = cstr (read_line (n - 1) cs)"
proof (cases "n = 0 \<or> cs = []")
  case True
  then have "read_line (n - 1) cs = []" by (cases "n - 1") auto
  with True show ?thesis by (simp add: fgets_def cstr_def)
next
  case False
  have "length (cstr (read_line (n - 1) cs)) \<le> n"
    using cstr_length[of "read_line (n - 1) cs"] read_line_length[of "n - 1" cs] by linarith
  with False show ?thesis by (simp add: fgets_def strncpy_short)
qed

subsection \<open>One alias\<close>

lemma nslookup_world:
  "snd (snd (nslookup e a w)) = w\<lparr>trace := trace w @ [Getaddrinfo (name a)]\<rparr>"
  by (simp add: nslookup_def Let_def split: gai_result.split option.split)

lemma nslookup_alias_cong:
  "fst (snd (nslookup e a u)) = fst (snd (nslookup e a w))"
  by (simp add: nslookup_def Let_def split: gai_result.split option.split)

lemma read_one_hit:
  assumes "files w (cache_path e a) = Some f"
  shows "read_one e a ns w =
    (a\<lparr>last_update := (case st_mtime f of Some t \<Rightarrow> t | None \<Rightarrow> 0),
       address := cstr (read_line (MAX_ADDRESS_LEN e - 1) (content f))\<rparr>,
     w\<lparr>trace := trace w @ [Fopen_r (cache_path e a)]\<rparr>)"
proof -
  have p: "cache_path e (a\<lparr>last_update := 0, address := []\<rparr>) = cache_path e a"
    by (simp add: cache_path_def)
  show ?thesis
    using assms p fgets_strncpy[of "MAX_ADDRESS_LEN e" "content f"]
    by (cases "fgets (MAX_ADDRESS_LEN e) (content f)"; cases "st_mtime f")
       (simp_all add: read_one_def fopen_r_def Let_def)
qed

lemma read_one_miss_nonslookup:
  assumes "files w (cache_path e a) = None"
  shows "read_one e a True w =
    (a\<lparr>last_update := 0, address := []\<rparr>, w\<lparr>trace := trace w @ [Fopen_r (cache_path e a)]\<rparr>)"
  using assms by (simp add: read_one_def fopen_r_def Let_def cache_path_def)

lemma read_one_miss_lookup:
  assumes "files w (cache_path e a) = None"
  shows "read_one e a False w =
    (a\<lparr>last_update := 0,
       address := (case lookup e (name a) of
                     GaiError err \<Rightarrow> []
                   | GaiOk sa rest \<Rightarrow>
                       (case getnameinfo e sa (MAX_ADDRESS_LEN e) of None \<Rightarrow> [] | Some s \<Rightarrow> s))\<rparr>,
     w\<lparr>trace := trace w @ [Fopen_r (cache_path e a), Getaddrinfo (name a)]\<rparr>)"
proof -
  have g: "\<And>sa s. getnameinfo e sa (MAX_ADDRESS_LEN e) = Some s \<Longrightarrow> strncpy (MAX_ADDRESS_LEN e) s = s"
    by (auto simp: getnameinfo_def strncpy_def cstr_def split: option.splits if_splits)
  show ?thesis using assms g
    by (auto simp: read_one_def fopen_r_def Let_def cache_path_def nslookup_def
        split: gai_result.split option.split)
qed

lemma read_one_files: "files (snd (read_one e a ns w)) = files w"
  by (simp add: read_one_def fopen_r_def Let_def nslookup_def split: option.split gai_result.split prod.split)

lemma read_one_clock: "clock (snd (read_one e a ns w)) = clock w"
  by (simp add: read_one_def fopen_r_def Let_def nslookup_def split: option.split gai_result.split prod.split)

lemma read_one_cong:
  "files u = files w \<Longrightarrow> fst (read_one e a ns u) = fst (read_one e a ns w)"
  by (simp add: read_one_def Let_def fopen_r_def nslookup_def split: option.split gai_result.split prod.split)

lemma read_one_trace:
  "\<exists>evs. trace (snd (read_one e a ns w)) = trace w @ Fopen_r (cache_path e a) # evs \<and> Res_init \<notin> set evs"
  by (simp add: read_one_def fopen_r_def Let_def nslookup_def cache_path_def split: option.split gai_result.split prod.split)

lemma read_one_events:
  "trace (snd (read_one e a ns w)) = trace w @ alias_events e w ns a"
proof (cases "files w (cache_path e a)")
  case None
  then show ?thesis
    using read_one_miss_nonslookup[of w e a] read_one_miss_lookup[of w e a]
    by (cases ns) (simp_all add: alias_events_def)
next
  case (Some f)
  then show ?thesis
    using read_one_hit[of w e a f ns] by (simp add: alias_events_def)
qed

lemma alias_events_cong:
  "files u = files w \<Longrightarrow> alias_events e u = alias_events e w"
  by (intro ext) (simp add: alias_events_def)

lemma lookups_append: "lookups (xs @ ys) = lookups xs @ lookups ys"
  by (simp add: lookups_def)

lemma lookups_alias_events:
  "lookups (alias_events e w ns a) =
     (if files w (cache_path e a) = None \<and> \<not> ns then [name a] else [])"
  by (simp add: lookups_def alias_events_def)

subsection \<open>The loops\<close>

lemma read_aliases_files: "files (snd (read_aliases e as ns w)) = files w"
proof (induction as arbitrary: w)
  case Nil
  show ?case by simp
next
  case (Cons a as)
  have "files (snd (read_one e a ns w)) = files w" by (rule read_one_files)
  with Cons[of "snd (read_one e a ns w)"] show ?case by (simp add: case_prod_beta)
qed

lemma read_aliases_fst:
  "fst (read_aliases e as ns w) = map (\<lambda>a. fst (read_one e a ns w)) as"
proof (induction as arbitrary: w)
  case Nil
  show ?case by simp
next
  case (Cons a as)
  have f: "files (snd (read_one e a ns w)) = files w" by (rule read_one_files)
  have "map (\<lambda>x. fst (read_one e x ns (snd (read_one e a ns w)))) as
      = map (\<lambda>x. fst (read_one e x ns w)) as"
    using read_one_cong[OF f] by simp
  with Cons[of "snd (read_one e a ns w)"] show ?case by (simp add: case_prod_beta)
qed

lemma read_aliases_trace:
  "\<exists>evs. trace (snd (read_aliases e as ns w)) = trace w @ evs \<and> Res_init \<notin> set evs"
proof (induction as arbitrary: w)
  case Nil
  show ?case by simp
next
  case (Cons a as)
  let ?w1 = "snd (read_one e a ns w)"
  obtain ev1 where e1: "trace ?w1 = trace w @ ev1" "Res_init \<notin> set ev1"
    using read_one_trace[of e a ns w] by auto
  obtain ev2 where e2: "trace (snd (read_aliases e as ns ?w1)) = trace ?w1 @ ev2" "Res_init \<notin> set ev2"
    using Cons[of ?w1] by auto
  have "trace (snd (read_aliases e (a # as) ns w)) = trace w @ (ev1 @ ev2)"
    using e1 e2 by (simp add: case_prod_beta)
  moreover have "Res_init \<notin> set (ev1 @ ev2)" using e1 e2 by simp
  ultimately show ?case by blast
qed

text \<open>What seeding makes of one \<^verbatim>\<open>info\<close>, given the files it finds.\<close>

lemma read_infos_files: "files (snd (read_infos e is w)) = files w"
proof (induction "is" arbitrary: w)
  case Nil
  show ?case by simp
next
  case (Cons i "is")
  let ?w1 = "snd (read_aliases e (aliases i) (nonslookup_of i) w)"
  have "files ?w1 = files w" by (rule read_aliases_files)
  with Cons[of ?w1] show ?case by (simp add: case_prod_beta)
qed

lemma read_aliases_cong:
  "files u = files w \<Longrightarrow> fst (read_aliases e as ns u) = fst (read_aliases e as ns w)"
  using read_one_cong[of u w] by (simp add: read_aliases_fst)

lemma read_infos_fst:
  "fst (read_infos e is w) =
     map (\<lambda>i. i\<lparr>aliases := map (\<lambda>a. fst (read_one e a (nonslookup_of i) w)) (aliases i)\<rparr>) is"
proof (induction "is" arbitrary: w)
  case Nil
  show ?case by simp
next
  case (Cons i "is")
  let ?w1 = "snd (read_aliases e (aliases i) (nonslookup_of i) w)"
  have f: "files ?w1 = files w" by (rule read_aliases_files)
  have "\<And>a ns. fst (read_one e a ns ?w1) = fst (read_one e a ns w)"
    using read_one_cong[OF f] by simp
  with Cons[of ?w1] show ?case by (simp add: case_prod_beta read_aliases_fst)
qed

lemma read_infos_trace:
  "\<exists>evs. trace (snd (read_infos e is w)) = trace w @ evs \<and> Res_init \<notin> set evs"
proof (induction "is" arbitrary: w)
  case Nil
  show ?case by simp
next
  case (Cons i "is")
  let ?w1 = "snd (read_aliases e (aliases i) (nonslookup_of i) w)"
  obtain ev1 where e1: "trace ?w1 = trace w @ ev1" "Res_init \<notin> set ev1"
    using read_aliases_trace[of e "aliases i" "nonslookup_of i" w] by auto
  obtain ev2 where e2: "trace (snd (read_infos e is ?w1)) = trace ?w1 @ ev2" "Res_init \<notin> set ev2"
    using Cons[of ?w1] by auto
  have "trace (snd (read_infos e (i # is) w)) = trace w @ (ev1 @ ev2)"
    using e1 e2 by (simp add: case_prod_beta)
  moreover have "Res_init \<notin> set (ev1 @ ev2)" using e1 e2 by simp
  ultimately show ?case by blast
qed

lemma read_aliases_events:
  "trace (snd (read_aliases e as ns w)) = trace w @ concat (map (alias_events e w ns) as)"
proof (induction as arbitrary: w)
  case Nil
  show ?case by simp
next
  case (Cons a as)
  let ?w1 = "snd (read_one e a ns w)"
  have f: "files ?w1 = files w" by (rule read_one_files)
  with Cons[of ?w1] read_one_events[of e a ns w] show ?case
    by (simp add: case_prod_beta alias_events_cong[OF f])
qed

lemma read_infos_events:
  "trace (snd (read_infos e is w)) = trace w @ pass_events e w is"
proof (induction "is" arbitrary: w)
  case Nil
  show ?case by (simp add: pass_events_def)
next
  case (Cons i "is")
  let ?w1 = "snd (read_aliases e (aliases i) (nonslookup_of i) w)"
  have f: "files ?w1 = files w" by (rule read_aliases_files)
  with Cons[of ?w1] read_aliases_events[of e "aliases i" "nonslookup_of i" w] show ?case
    by (simp add: case_prod_beta pass_events_def alias_events_cong[OF f])
qed

lemma pass_events_lookup:
  assumes "Getaddrinfo n \<in> set (pass_events e w infos)"
  shows "\<exists>i\<in>set infos. \<exists>a\<in>set (aliases i).
           name a = n \<and> files w (cache_path e a) = None \<and> \<not> nonslookup_of i"
  using assms by (auto simp: pass_events_def alias_events_def split: if_splits)

lemma lookups_aliases:
  "lookups (concat (map (alias_events e w ns) as)) =
     (if ns then [] else map name (filter (\<lambda>a. files w (cache_path e a) = None) as))"
  by (induction as) (simp_all add: lookups_append lookups_alias_events, simp add: lookups_def)

lemma lookups_pass_events:
  "lookups (pass_events e w infos) =
     concat (map (\<lambda>i. if nonslookup_of i then []
                       else map name (filter (\<lambda>a. fst (fopen_r (cache_path e a) w) = None) (aliases i)))
                 infos)"
proof (induction infos)
  case Nil
  show ?case by (simp add: pass_events_def lookups_def)
next
  case (Cons i infos)
  have "pass_events e w (i # infos) =
      concat (map (alias_events e w (nonslookup_of i)) (aliases i)) @ pass_events e w infos"
    by (simp add: pass_events_def)
  with Cons show ?case
    by (simp add: lookups_append lookups_aliases fopen_r_def)
qed

subsection \<open>The whole configuration\<close>

lemma read_cache_file_None:
  "read_cache_file e None w = (RC_INVALID_POINTER e, None, res_init w)"
  by (simp add: read_cache_file_def)

lemma read_cache_file_Some:
  "read_cache_file e (Some c) w =
     (0,
      Some (c\<lparr>info := map (\<lambda>i. i\<lparr>aliases := map (\<lambda>a. fst (read_one e a (nonslookup_of i) w)) (aliases i)\<rparr>) (info c)\<rparr>),
      snd (read_infos e (info c) (res_init w)))"
proof -
  have f: "files (res_init w) = files w" by (simp add: res_init_def)
  have "\<And>a ns. fst (read_one e a ns (res_init w)) = fst (read_one e a ns w)"
    using read_one_cong[OF f] by simp
  then show ?thesis
    by (simp add: read_cache_file_def case_prod_beta read_infos_fst)
qed

lemma read_cache_file_files: "files (snd (snd (read_cache_file e ctx w))) = files w"
  by (cases ctx) (simp_all add: read_cache_file_None read_cache_file_Some read_infos_files res_init_def)

lemma read_cache_file_events:
  "trace (snd (snd (read_cache_file e (Some c) w))) = trace w @ Res_init # pass_events e w (info c)"
proof -
  have f: "files (res_init w) = files w" by (simp add: res_init_def)
  have "pass_events e (res_init w) (info c) = pass_events e w (info c)"
    by (simp add: pass_events_def alias_events_cong[OF f])
  then show ?thesis
    using read_infos_events[of e "info c" "res_init w"]
    by (simp add: read_cache_file_Some res_init_def)
qed

text \<open>A name whose cache file opens is not looked up anywhere in the pass.\<close>

lemma pass_events_hit:
  assumes "files w (cache_path e a) = Some f"
  shows "Getaddrinfo (name a) \<notin> set (pass_events e w infos)"
proof
  assume "Getaddrinfo (name a) \<in> set (pass_events e w infos)"
  then obtain b where "name b = name a" and "files w (cache_path e b) = None"
    using pass_events_lookup by blast
  then show False using assms by (simp add: cache_path_def)
qed

text \<open>Every lookup of the pass is that of an alias which has no cache file and may be looked up.\<close>

lemma pass_events_owner:
  assumes "Getaddrinfo n \<in> set (pass_events e w infos)"
  shows "\<exists>i<length infos. \<exists>j<length (aliases (infos ! i)).
           \<not> nonslookup_of (infos ! i) \<and> name (aliases (infos ! i) ! j) = n \<and>
           fst (fopen_r (cache_path e (aliases (infos ! i) ! j)) w) = None"
proof -
  obtain g a where g: "g \<in> set infos" and a: "a \<in> set (aliases g)"
    and p: "name a = n" "files w (cache_path e a) = None" "\<not> nonslookup_of g"
    using pass_events_lookup[OF assms] by blast
  obtain i where i: "i < length infos" "infos ! i = g"
    using g by (auto simp: in_set_conv_nth)
  obtain j where j: "j < length (aliases g)" "aliases g ! j = a"
    using a by (auto simp: in_set_conv_nth)
  show ?thesis using i j p by (auto simp: fopen_r_def)
qed

lemma seeded_alias:
  assumes "read_cache_file e (Some c) w = (rc, ctx', w')"
    and "i < length (info c)" and "j < length (aliases (info c ! i))"
  shows "\<exists>c'. ctx' = Some c' \<and>
           aliases (info c' ! i) ! j =
             fst (read_one e (aliases (info c ! i) ! j) (nonslookup_of (info c ! i)) w)"
  using assms by (auto simp: read_cache_file_Some)

subsection \<open>The sample installation, run\<close>

lemma read_line_numeral:
  "read_line (numeral n) cs =
     (case cs of [] \<Rightarrow> [] | c # cs' \<Rightarrow> if c = newline then [c] else c # read_line (pred_numeral n) cs')"
  by (cases cs) (simp_all add: numeral_eq_Suc)

lemmas demo_defs =
  demo_env_def demo_world_def demo_ctx_def legacy_ctx_def stale_def two_lines_def
  demo_seeded_def demo_calls_def
  read_cache_file_def res_init_def nonslookup_of_def read_one_def fopen_r_def cache_path_def
  snprintf_def nslookup_def getnameinfo_def fgets_def strncpy_def cstr_def NUL_def newline_def
  write_cache_file_def fopen_w_def fprintf_s_def Let_def read_line_numeral
  lookups_def

lemma demo_seed:
  "read_cache_file demo_env (Some demo_ctx) demo_world =
     (0, Some demo_seeded, demo_world\<lparr>trace := demo_calls\<rparr>)"
  by (simp add: demo_defs)

section \<open>The claims\<close>

subsection \<open>Seeding from a cache file\<close>

text \<open>
  C1. For every alias whose cache file can be opened for reading, seeding sets the
  alias's address from the file's content: it is the C string in the first line of the
  file, cut to \<^verbatim>\<open>MAX_ADDRESS_LEN - 1\<close> characters, and so the content itself when that
  is one short line. Its \<^verbatim>\<open>last_update\<close> is the file's modification time, as
  \<^verbatim>\<open>fstat\<close> reports it (it stays 0 should \<^verbatim>\<open>fstat\<close> fail). The resolver is never
  invoked for that alias: among the calls of the whole pass, which begin with
  \<^verbatim>\<open>res_init\<close>, there is no lookup of its name, the lookups of the pass are exactly
  those of the aliases without a cache file outside the exempt groups, and reading this
  alias, in whatever state the earlier aliases left the resolver, adds the \<^verbatim>\<open>fopen\<close>
  and nothing else.
\<close>

theorem seed_cache_hit:
  assumes "read_cache_file e (Some c) w = (rc, ctx', w')"
    and "i < length (info c)" and "j < length (aliases (info c ! i))"
    and "fst (fopen_r (cache_path e (aliases (info c ! i) ! j)) w) = Some f"
  shows "\<exists>c' evs. ctx' = Some c' \<and>
           address (aliases (info c' ! i) ! j) = cstr (read_line (MAX_ADDRESS_LEN e - 1) (content f)) \<and>
           (NUL \<notin> set (content f) \<and> newline \<notin> set (butlast (content f)) \<and>
              length (content f) < MAX_ADDRESS_LEN e \<longrightarrow>
            address (aliases (info c' ! i) ! j) = content f) \<and>
           last_update (aliases (info c' ! i) ! j) = (case st_mtime f of Some t \<Rightarrow> t | None \<Rightarrow> 0) \<and>
           trace w' = trace w @ Res_init # evs \<and>
           Getaddrinfo (name (aliases (info c ! i) ! j)) \<notin> set evs \<and>
           lookups evs =
             concat (map (\<lambda>g. if nonslookup_of g then []
                               else map name (filter (\<lambda>x. fst (fopen_r (cache_path e x) w) = None) (aliases g)))
                         (info c)) \<and>
           (\<forall>u. files u = files w \<longrightarrow>
              trace (snd (read_one e (aliases (info c ! i) ! j) (nonslookup_of (info c ! i)) u)) =
                trace u @ [Fopen_r (cache_path e (aliases (info c ! i) ! j))])"
proof -
  let ?a = "aliases (info c ! i) ! j"
  let ?ns = "nonslookup_of (info c ! i)"
  let ?evs = "pass_events e w (info c)"
  have hit: "files w (cache_path e ?a) = Some f"
    using assms(4) by (simp add: fopen_r_def)
  obtain c' where c': "ctx' = Some c'"
    and a': "aliases (info c' ! i) ! j = fst (read_one e ?a ?ns w)"
    using seeded_alias[OF assms(1-3)] by blast
  have addr: "address (aliases (info c' ! i) ! j) = cstr (read_line (MAX_ADDRESS_LEN e - 1) (content f))"
    and upd: "last_update (aliases (info c' ! i) ! j) = (case st_mtime f of Some t \<Rightarrow> t | None \<Rightarrow> 0)"
    using a' read_one_hit[OF hit, of ?ns] by simp_all
  have plain: "address (aliases (info c' ! i) ! j) = content f"
    if "NUL \<notin> set (content f)" "newline \<notin> set (butlast (content f))"
       "length (content f) < MAX_ADDRESS_LEN e"
  proof -
    have "read_line (MAX_ADDRESS_LEN e - 1) (content f) = content f"
      using that by (intro read_line_id) simp_all
    with addr that(1) show ?thesis by (simp add: cstr_id)
  qed
  have pass: "trace w' = trace w @ Res_init # ?evs"
    using read_cache_file_events[of e c w] assms(1) by simp
  have none: "Getaddrinfo (name ?a) \<notin> set ?evs"
    by (rule pass_events_hit[OF hit])
  note exact = lookups_pass_events[of e w "info c"]
  have quiet: "trace (snd (read_one e ?a ?ns u)) = trace u @ [Fopen_r (cache_path e ?a)]"
    if "files u = files w" for u
    using read_one_hit[of u e ?a f ?ns] hit that by simp
  show ?thesis using c' addr upd plain pass none exact quiet by blast
qed

theorem seed_cache_hit_witness:
  "read_cache_file demo_env (Some demo_ctx) demo_world =
     (0, Some demo_seeded, demo_world\<lparr>trace := demo_calls\<rparr>) \<and>
   fst (fopen_r (cache_path demo_env (aliases (info demo_ctx ! 0) ! 0)) demo_world) =
     Some \<lparr>content = ''203.0.113.7'', st_mtime = Some 1700000000\<rparr> \<and>
   address (aliases (info demo_seeded ! 0) ! 0) = ''203.0.113.7'' \<and>
   last_update (aliases (info demo_seeded ! 0) ! 0) = 1700000000 \<and>
   demo_calls = Res_init # tl demo_calls \<and>
   Getaddrinfo ''home.example.com'' \<notin> set (tl demo_calls) \<and>
   lookups (tl demo_calls) = [''new.example.com'', ''gone.example.com'', ''odd.example.com''] \<and>
   trace (snd (read_one demo_env (aliases (info demo_ctx ! 0) ! 0)
                (nonslookup_of (info demo_ctx ! 0)) demo_world)) =
     [Fopen_r ''/var/run/inadyn/home.example.com.cache'']"
proof -
  have i: "0 < length (info demo_ctx)" by (simp add: demo_ctx_def)
  have j: "0 < length (aliases (info demo_ctx ! 0))" by (simp add: demo_ctx_def)
  have op: "fst (fopen_r (cache_path demo_env (aliases (info demo_ctx ! 0) ! 0)) demo_world) =
     Some \<lparr>content = ''203.0.113.7'', st_mtime = Some 1700000000\<rparr>"
    by (simp add: demo_defs)
  have plain: "NUL \<notin> set ''203.0.113.7'' \<and> newline \<notin> set (butlast ''203.0.113.7'') \<and>
      length ''203.0.113.7'' < MAX_ADDRESS_LEN demo_env"
    by (simp add: demo_defs)
  have p: "cache_path demo_env (aliases (info demo_ctx ! 0) ! 0) = ''/var/run/inadyn/home.example.com.cache''"
    by (simp add: demo_defs)
  have n: "name (aliases (info demo_ctx ! 0) ! 0) = ''home.example.com''"
    by (simp add: demo_defs)
  have t: "trace demo_world = []" by (simp add: demo_world_def)
  have names: "concat (map (\<lambda>g. if nonslookup_of g then []
       else map name (filter (\<lambda>x. fst (fopen_r (cache_path demo_env x) demo_world) = None) (aliases g)))
       (info demo_ctx)) = [''new.example.com'', ''gone.example.com'', ''odd.example.com'']"
    by (simp add: demo_defs)
  from seed_cache_hit[OF demo_seed i j op] obtain evs where
    st: "address (aliases (info demo_seeded ! 0) ! 0) = ''203.0.113.7''"
      "last_update (aliases (info demo_seeded ! 0) ! 0) = 1700000000"
    and tr: "demo_calls = Res_init # evs"
    and ev: "Getaddrinfo ''home.example.com'' \<notin> set evs"
      "lookups evs = [''new.example.com'', ''gone.example.com'', ''odd.example.com'']"
    and rd: "trace (snd (read_one demo_env (aliases (info demo_ctx ! 0) ! 0)
                (nonslookup_of (info demo_ctx ! 0)) demo_world)) =
      [Fopen_r ''/var/run/inadyn/home.example.com.cache'']"
    using plain p n t names by auto
  from tr have "evs = tl demo_calls" by (metis list.sel(3))
  with demo_seed op st tr ev rd show ?thesis by blast
qed

text \<open>
  C9. For every alias whose cache file opens but holds no byte, seeding counts a cache
  hit: the address stays the empty string and \<^verbatim>\<open>last_update\<close> is still set to the file's
  modification time, as \<^verbatim>\<open>fstat\<close> reports it (0 should \<^verbatim>\<open>fstat\<close> fail). The resolver
  is never invoked for that alias: among the calls of the whole pass, which begin with
  \<^verbatim>\<open>res_init\<close>, there is no lookup of its name, the lookups of the pass are exactly
  those of the aliases without a cache file outside the exempt groups, and reading this
  alias adds the \<^verbatim>\<open>fopen\<close> and nothing else.
\<close>

theorem seed_empty_cache_file:
  assumes "read_cache_file e (Some c) w = (rc, ctx', w')"
    and "i < length (info c)" and "j < length (aliases (info c ! i))"
    and "fst (fopen_r (cache_path e (aliases (info c ! i) ! j)) w) = Some f"
    and "content f = []"
  shows "\<exists>c' evs. ctx' = Some c' \<and>
           address (aliases (info c' ! i) ! j) = [] \<and>
           last_update (aliases (info c' ! i) ! j) = (case st_mtime f of Some t \<Rightarrow> t | None \<Rightarrow> 0) \<and>
           trace w' = trace w @ Res_init # evs \<and>
           Getaddrinfo (name (aliases (info c ! i) ! j)) \<notin> set evs \<and>
           lookups evs =
             concat (map (\<lambda>g. if nonslookup_of g then []
                               else map name (filter (\<lambda>x. fst (fopen_r (cache_path e x) w) = None) (aliases g)))
                         (info c)) \<and>
           (\<forall>u. files u = files w \<longrightarrow>
              trace (snd (read_one e (aliases (info c ! i) ! j) (nonslookup_of (info c ! i)) u)) =
                trace u @ [Fopen_r (cache_path e (aliases (info c ! i) ! j))])"
proof -
  let ?a = "aliases (info c ! i) ! j"
  let ?ns = "nonslookup_of (info c ! i)"
  let ?evs = "pass_events e w (info c)"
  have hit: "files w (cache_path e ?a) = Some f"
    using assms(4) by (simp add: fopen_r_def)
  obtain c' where c': "ctx' = Some c'"
    and a': "aliases (info c' ! i) ! j = fst (read_one e ?a ?ns w)"
    using seeded_alias[OF assms(1-3)] by blast
  have line: "read_line (MAX_ADDRESS_LEN e - 1) [] = []"
    by (cases "MAX_ADDRESS_LEN e - 1") simp_all
  have addr: "address (aliases (info c' ! i) ! j) = []"
    using a' read_one_hit[OF hit, of ?ns] assms(5) line by (simp add: cstr_def)
  have upd: "last_update (aliases (info c' ! i) ! j) = (case st_mtime f of Some t \<Rightarrow> t | None \<Rightarrow> 0)"
    using a' read_one_hit[OF hit, of ?ns] by simp
  have pass: "trace w' = trace w @ Res_init # ?evs"
    using read_cache_file_events[of e c w] assms(1) by simp
  have none: "Getaddrinfo (name ?a) \<notin> set ?evs"
    by (rule pass_events_hit[OF hit])
  note exact = lookups_pass_events[of e w "info c"]
  have quiet: "trace (snd (read_one e ?a ?ns u)) = trace u @ [Fopen_r (cache_path e ?a)]"
    if "files u = files w" for u
    using read_one_hit[of u e ?a f ?ns] hit that by simp
  show ?thesis using c' addr upd pass none exact quiet by blast
qed

theorem seed_empty_cache_file_witness:
  "read_cache_file demo_env (Some demo_ctx) demo_world =
     (0, Some demo_seeded, demo_world\<lparr>trace := demo_calls\<rparr>) \<and>
   fst (fopen_r (cache_path demo_env (aliases (info demo_ctx ! 0) ! 3)) demo_world) =
     Some \<lparr>content = [], st_mtime = Some 1700000500\<rparr> \<and>
   address (aliases (info demo_seeded ! 0) ! 3) = [] \<and>
   last_update (aliases (info demo_seeded ! 0) ! 3) = 1700000500 \<and>
   demo_calls = Res_init # tl demo_calls \<and>
   Getaddrinfo ''empty.example.com'' \<notin> set (tl demo_calls) \<and>
   lookups (tl demo_calls) = [''new.example.com'', ''gone.example.com'', ''odd.example.com''] \<and>
   trace (snd (read_one demo_env (aliases (info demo_ctx ! 0) ! 3)
                (nonslookup_of (info demo_ctx ! 0)) demo_world)) =
     [Fopen_r ''/var/run/inadyn/empty.example.com.cache'']"
proof -
  have i: "0 < length (info demo_ctx)" by (simp add: demo_ctx_def)
  have j: "3 < length (aliases (info demo_ctx ! 0))" by (simp add: demo_ctx_def)
  have op: "fst (fopen_r (cache_path demo_env (aliases (info demo_ctx ! 0) ! 3)) demo_world) =
     Some \<lparr>content = [], st_mtime = Some 1700000500\<rparr>"
    by (simp add: demo_defs)
  have p: "cache_path demo_env (aliases (info demo_ctx ! 0) ! 3) = ''/var/run/inadyn/empty.example.com.cache''"
    by (simp add: demo_defs)
  have n: "name (aliases (info demo_ctx ! 0) ! 3) = ''empty.example.com''"
    by (simp add: demo_defs)
  have t: "trace demo_world = []" by (simp add: demo_world_def)
  have names: "concat (map (\<lambda>g. if nonslookup_of g then []
       else map name (filter (\<lambda>x. fst (fopen_r (cache_path demo_env x) demo_world) = None) (aliases g)))
       (info demo_ctx)) = [''new.example.com'', ''gone.example.com'', ''odd.example.com'']"
    by (simp add: demo_defs)
  from seed_empty_cache_file[OF demo_seed i j op] obtain evs where
    st: "address (aliases (info demo_seeded ! 0) ! 3) = []"
      "last_update (aliases (info demo_seeded ! 0) ! 3) = 1700000500"
    and tr: "demo_calls = Res_init # evs"
    and ev: "Getaddrinfo ''empty.example.com'' \<notin> set evs"
      "lookups evs = [''new.example.com'', ''gone.example.com'', ''odd.example.com'']"
    and rd: "trace (snd (read_one demo_env (aliases (info demo_ctx ! 0) ! 3)
                (nonslookup_of (info demo_ctx ! 0)) demo_world)) =
      [Fopen_r ''/var/run/inadyn/empty.example.com.cache'']"
    using p n t names by auto
  from tr have "evs = tl demo_calls" by (metis list.sel(3))
  with demo_seed op st tr ev rd show ?thesis by blast
qed

subsection \<open>Seeding without a cache file\<close>

text \<open>
  C4. For every alias of an \<^verbatim>\<open>info\<close> whose system is \<^verbatim>\<open>ipv6tb@he.net\<close> (no hostname
  to look up) and whose cache file cannot be opened, seeding leaves the address empty and
  \<^verbatim>\<open>last_update\<close> zero. The resolver is never invoked for that alias: the names looked
  up in the whole pass, one for each call, are exactly those of the aliases without a
  cache file in the groups of other systems, so every lookup of the pass is that of such
  an alias and none is left for this one; its name is looked up only if an alias of
  another system bears it too. Reading this alias adds the \<^verbatim>\<open>fopen\<close> that fails and
  nothing else.
\<close>

theorem seed_no_hostname_miss:
  assumes "read_cache_file e (Some c) w = (rc, ctx', w')"
    and "i < length (info c)" and "j < length (aliases (info c ! i))"
    and "nonslookup_of (info c ! i)"
    and "fst (fopen_r (cache_path e (aliases (info c ! i) ! j)) w) = None"
  shows "\<exists>c' evs. ctx' = Some c' \<and>
           address (aliases (info c' ! i) ! j) = [] \<and>
           last_update (aliases (info c' ! i) ! j) = 0 \<and>
           trace w' = trace w @ Res_init # evs \<and>
           lookups evs =
             concat (map (\<lambda>g. if nonslookup_of g then []
                               else map name (filter (\<lambda>x. fst (fopen_r (cache_path e x) w) = None) (aliases g)))
                         (info c)) \<and>
           (\<forall>n. Getaddrinfo n \<in> set evs \<longrightarrow>
              (\<exists>i'<length (info c). \<exists>j'<length (aliases (info c ! i')).
                 \<not> nonslookup_of (info c ! i') \<and> name (aliases (info c ! i') ! j') = n \<and>
                 fst (fopen_r (cache_path e (aliases (info c ! i') ! j')) w) = None)) \<and>
           ((\<forall>g\<in>set (info c). \<forall>x\<in>set (aliases g).
                name x = name (aliases (info c ! i) ! j) \<longrightarrow> nonslookup_of g) \<longrightarrow>
            Getaddrinfo (name (aliases (info c ! i) ! j)) \<notin> set evs) \<and>
           (\<forall>u. files u = files w \<longrightarrow>
              trace (snd (read_one e (aliases (info c ! i) ! j) (nonslookup_of (info c ! i)) u)) =
                trace u @ [Fopen_r (cache_path e (aliases (info c ! i) ! j))])"
proof -
  let ?a = "aliases (info c ! i) ! j"
  let ?evs = "pass_events e w (info c)"
  have miss: "files w (cache_path e ?a) = None"
    using assms(5) by (simp add: fopen_r_def)
  obtain c' where c': "ctx' = Some c'"
    and a': "aliases (info c' ! i) ! j = fst (read_one e ?a True w)"
    using seeded_alias[OF assms(1-3)] assms(4) by auto
  have state: "address (aliases (info c' ! i) ! j) = []" "last_update (aliases (info c' ! i) ! j) = 0"
    using a' read_one_miss_nonslookup[OF miss] by simp_all
  have pass: "trace w' = trace w @ Res_init # ?evs"
    using read_cache_file_events[of e c w] assms(1) by simp
  note exact = lookups_pass_events[of e w "info c"]
  have owner: "\<exists>i'<length (info c). \<exists>j'<length (aliases (info c ! i')).
      \<not> nonslookup_of (info c ! i') \<and> name (aliases (info c ! i') ! j') = n \<and>
      fst (fopen_r (cache_path e (aliases (info c ! i') ! j')) w) = None"
    if "Getaddrinfo n \<in> set ?evs" for n
    using pass_events_owner[OF that] .
  have alone: "Getaddrinfo (name ?a) \<notin> set ?evs"
    if "\<forall>g\<in>set (info c). \<forall>x\<in>set (aliases g). name x = name ?a \<longrightarrow> nonslookup_of g"
    using that pass_events_lookup[of "name ?a" e w "info c"] by blast
  have quiet: "trace (snd (read_one e ?a (nonslookup_of (info c ! i)) u)) =
      trace u @ [Fopen_r (cache_path e ?a)]"
    if "files u = files w" for u
    using read_one_miss_nonslookup[of u e ?a] miss that assms(4) by simp
  show ?thesis
  proof (intro exI[of _ c'] exI[of _ ?evs] conjI allI impI)
    show "ctx' = Some c'" by (rule c')
    show "address (aliases (info c' ! i) ! j) = []" by (rule state)
    show "last_update (aliases (info c' ! i) ! j) = 0" by (rule state)
    show "trace w' = trace w @ Res_init # ?evs" by (rule pass)
    show "lookups ?evs =
        concat (map (\<lambda>g. if nonslookup_of g then []
                          else map name (filter (\<lambda>x. fst (fopen_r (cache_path e x) w) = None) (aliases g)))
                    (info c))"
      by (rule exact)
  next
    fix n assume "Getaddrinfo n \<in> set ?evs"
    then show "\<exists>i'<length (info c). \<exists>j'<length (aliases (info c ! i')).
      \<not> nonslookup_of (info c ! i') \<and> name (aliases (info c ! i') ! j') = n \<and>
      fst (fopen_r (cache_path e (aliases (info c ! i') ! j')) w) = None"
      by (rule owner)
  next
    assume "\<forall>g\<in>set (info c). \<forall>x\<in>set (aliases g). name x = name ?a \<longrightarrow> nonslookup_of g"
    then show "Getaddrinfo (name ?a) \<notin> set ?evs" by (rule alone)
  next
    fix u :: world assume "files u = files w"
    then show "trace (snd (read_one e ?a (nonslookup_of (info c ! i)) u)) =
      trace u @ [Fopen_r (cache_path e ?a)]"
      by (rule quiet)
  qed
qed

theorem seed_no_hostname_miss_witness:
  "read_cache_file demo_env (Some demo_ctx) demo_world =
     (0, Some demo_seeded, demo_world\<lparr>trace := demo_calls\<rparr>) \<and>
   nonslookup_of (info demo_ctx ! 1) \<and>
   fst (fopen_r (cache_path demo_env (aliases (info demo_ctx ! 1) ! 0)) demo_world) = None \<and>
   address (aliases (info demo_seeded ! 1) ! 0) = [] \<and>
   last_update (aliases (info demo_seeded ! 1) ! 0) = 0 \<and>
   demo_calls = Res_init # tl demo_calls \<and>
   lookups (tl demo_calls) = [''new.example.com'', ''gone.example.com'', ''odd.example.com''] \<and>
   Getaddrinfo ''tunnel.example.com'' \<notin> set (tl demo_calls) \<and>
   trace (snd (read_one demo_env (aliases (info demo_ctx ! 1) ! 0)
                (nonslookup_of (info demo_ctx ! 1)) demo_world)) =
     [Fopen_r ''/var/run/inadyn/tunnel.example.com.cache'']"
proof -
  have i: "1 < length (info demo_ctx)" by (simp add: demo_ctx_def)
  have j: "0 < length (aliases (info demo_ctx ! 1))" by (simp add: demo_ctx_def)
  have ns: "nonslookup_of (info demo_ctx ! 1)" by (simp add: demo_defs)
  have op: "fst (fopen_r (cache_path demo_env (aliases (info demo_ctx ! 1) ! 0)) demo_world) = None"
    by (simp add: demo_defs)
  have p: "cache_path demo_env (aliases (info demo_ctx ! 1) ! 0) = ''/var/run/inadyn/tunnel.example.com.cache''"
    by (simp add: demo_defs)
  have n: "name (aliases (info demo_ctx ! 1) ! 0) = ''tunnel.example.com''"
    by (simp add: demo_defs)
  have only: "\<forall>g\<in>set (info demo_ctx). \<forall>x\<in>set (aliases g).
      name x = ''tunnel.example.com'' \<longrightarrow> nonslookup_of g"
    by (simp add: demo_defs)
  have t: "trace demo_world = []" by (simp add: demo_world_def)
  have names: "concat (map (\<lambda>g. if nonslookup_of g then []
       else map name (filter (\<lambda>x. fst (fopen_r (cache_path demo_env x) demo_world) = None) (aliases g)))
       (info demo_ctx)) = [''new.example.com'', ''gone.example.com'', ''odd.example.com'']"
    by (simp add: demo_defs)
  from seed_no_hostname_miss[OF demo_seed i j ns op] obtain evs where
    st: "address (aliases (info demo_seeded ! 1) ! 0) = []"
      "last_update (aliases (info demo_seeded ! 1) ! 0) = 0"
    and tr: "demo_calls = Res_init # evs"
    and ev: "lookups evs = [''new.example.com'', ''gone.example.com'', ''odd.example.com'']"
      "Getaddrinfo ''tunnel.example.com'' \<notin> set evs"
    and rd: "trace (snd (read_one demo_env (aliases (info demo_ctx ! 1) ! 0)
                (nonslookup_of (info demo_ctx ! 1)) demo_world)) =
      [Fopen_r ''/var/run/inadyn/tunnel.example.com.cache'']"
    using p n t names only by auto
  from tr have "evs = tl demo_calls" by (metis list.sel(3))
  with demo_seed ns op st tr ev rd show ?thesis by blast
qed

text \<open>
  C5. For every alias of an \<^verbatim>\<open>info\<close> with another system, whose cache file cannot be
  opened: when the name resolves and the first result has a numeric form that fits the
  buffer, seeding sets the address to that numeric form; when the lookup or the conversion
  fails, the address stays empty. Either way \<^verbatim>\<open>last_update\<close> stays zero, and seeding
  goes on: it returns 0 and this holds at every position of the configuration, whatever
  happened to the aliases before.
\<close>

theorem seed_lookup_fallback:
  assumes "read_cache_file e (Some c) w = (rc, ctx', w')"
    and "i < length (info c)" and "j < length (aliases (info c ! i))"
    and "\<not> nonslookup_of (info c ! i)"
    and "fst (fopen_r (cache_path e (aliases (info c ! i) ! j)) w) = None"
  shows "\<exists>c'. ctx' = Some c' \<and> rc = 0 \<and>
           address (aliases (info c' ! i) ! j) =
             (case lookup e (name (aliases (info c ! i) ! j)) of
                GaiError err \<Rightarrow> []
              | GaiOk sa rest \<Rightarrow>
                  (case getnameinfo e sa (MAX_ADDRESS_LEN e) of None \<Rightarrow> [] | Some s \<Rightarrow> s)) \<and>
           last_update (aliases (info c' ! i) ! j) = 0"
proof -
  let ?a = "aliases (info c ! i) ! j"
  have miss: "files w (cache_path e ?a) = None"
    using assms(5) by (simp add: fopen_r_def)
  obtain c' where c': "ctx' = Some c'"
    and a': "aliases (info c' ! i) ! j = fst (read_one e ?a False w)"
    using seeded_alias[OF assms(1-3)] assms(4) by auto
  have rc: "rc = 0" using assms(1) by (simp add: read_cache_file_Some)
  show ?thesis using c' rc a' read_one_miss_lookup[OF miss] by simp
qed

theorem seed_lookup_fallback_witness:
  "read_cache_file demo_env (Some demo_ctx) demo_world =
     (0, Some demo_seeded, demo_world\<lparr>trace := demo_calls\<rparr>) \<and>
   \<not> nonslookup_of (info demo_ctx ! 0) \<and>
   fst (fopen_r (cache_path demo_env (aliases (info demo_ctx ! 0) ! 1)) demo_world) = None \<and>
   fst (fopen_r (cache_path demo_env (aliases (info demo_ctx ! 0) ! 2)) demo_world) = None \<and>
   lookup demo_env ''new.example.com'' = GaiOk 1 [7] \<and>
   getnameinfo demo_env 1 (MAX_ADDRESS_LEN demo_env) = Some ''198.51.100.4'' \<and>
   lookup demo_env ''gone.example.com'' = GaiError (- 2) \<and>
   address (aliases (info demo_seeded ! 0) ! 1) = ''198.51.100.4'' \<and>
   last_update (aliases (info demo_seeded ! 0) ! 1) = 0 \<and>
   address (aliases (info demo_seeded ! 0) ! 2) = [] \<and>
   last_update (aliases (info demo_seeded ! 0) ! 2) = 0"
proof -
  have i: "0 < length (info demo_ctx)" by (simp add: demo_ctx_def)
  have j1: "1 < length (aliases (info demo_ctx ! 0))" by (simp add: demo_ctx_def)
  have j2: "2 < length (aliases (info demo_ctx ! 0))" by (simp add: demo_ctx_def)
  have ns: "\<not> nonslookup_of (info demo_ctx ! 0)" by (simp add: demo_defs)
  have op1: "fst (fopen_r (cache_path demo_env (aliases (info demo_ctx ! 0) ! 1)) demo_world) = None"
    by (simp add: demo_defs)
  have op2: "fst (fopen_r (cache_path demo_env (aliases (info demo_ctx ! 0) ! 2)) demo_world) = None"
    by (simp add: demo_defs)
  have n1: "name (aliases (info demo_ctx ! 0) ! 1) = ''new.example.com''" by (simp add: demo_defs)
  have n2: "name (aliases (info demo_ctx ! 0) ! 2) = ''gone.example.com''" by (simp add: demo_defs)
  have l1: "lookup demo_env ''new.example.com'' = GaiOk 1 [7]" by (simp add: demo_defs)
  have g1: "getnameinfo demo_env 1 (MAX_ADDRESS_LEN demo_env) = Some ''198.51.100.4''"
    by (simp add: demo_defs)
  have l2: "lookup demo_env ''gone.example.com'' = GaiError (- 2)" by (simp add: demo_defs)
  from seed_lookup_fallback[OF demo_seed i j1 ns op1] n1 l1 g1
  have r1: "address (aliases (info demo_seeded ! 0) ! 1) = ''198.51.100.4'' \<and>
    last_update (aliases (info demo_seeded ! 0) ! 1) = 0"
    by auto
  from seed_lookup_fallback[OF demo_seed i j2 ns op2] n2 l2
  have r2: "address (aliases (info demo_seeded ! 0) ! 2) = [] \<and>
    last_update (aliases (info demo_seeded ! 0) ! 2) = 0"
    by auto
  from demo_seed ns op1 op2 l1 g1 l2 r1 r2 show ?thesis by blast
qed

subsection \<open>The lookup\<close>

text \<open>
  C3, as the specification has it: \<^verbatim>\<open>nslookup\<close> reports a failure when the first result
  cannot be converted to numeric form. It does not: for \<^verbatim>\<open>odd.example.com\<close> the lookup
  succeeds, \<^verbatim>\<open>getnameinfo\<close> fails, and \<^verbatim>\<open>nslookup\<close> returns 0 with the alias as it
  was.
\<close>

theorem nslookup_conversion_failure_returns_0:
  "lookup demo_env ''odd.example.com'' = GaiOk 2 [] \<and>
   getnameinfo demo_env 2 (MAX_ADDRESS_LEN demo_env) = None \<and>
   nslookup demo_env (stale ''odd.example.com'') demo_world =
     (0, stale ''odd.example.com'', demo_world\<lparr>trace := [Getaddrinfo ''odd.example.com'']\<rparr>)"
  by (simp add: demo_defs)

text \<open>
  C3, amended. \<^verbatim>\<open>nslookup\<close> returns 1 exactly when \<^verbatim>\<open>getaddrinfo\<close> fails (a name
  without results is such a failure) and 0 otherwise, also when the first result has no
  numeric form that fits the buffer; the alias then stays as it was, and gets the numeric
  form as its address only when the conversion succeeds. It always returns, with one of
  these two values, after exactly one call of \<^verbatim>\<open>getaddrinfo\<close>: it does not retry.
\<close>

theorem nslookup_returns:
  "fst (nslookup e a w) = (case lookup e (name a) of GaiError err \<Rightarrow> 1 | GaiOk sa rest \<Rightarrow> 0) \<and>
   fst (snd (nslookup e a w)) =
     (case lookup e (name a) of
        GaiError err \<Rightarrow> a
      | GaiOk sa rest \<Rightarrow>
          (case getnameinfo e sa (MAX_ADDRESS_LEN e) of
             None \<Rightarrow> a
           | Some s \<Rightarrow> a\<lparr>address := s\<rparr>)) \<and>
   snd (snd (nslookup e a w)) = w\<lparr>trace := trace w @ [Getaddrinfo (name a)]\<rparr>"
proof -
  have g: "\<And>sa s. getnameinfo e sa (MAX_ADDRESS_LEN e) = Some s \<Longrightarrow> strncpy (MAX_ADDRESS_LEN e) s = s"
    by (auto simp: getnameinfo_def strncpy_def cstr_def split: option.splits if_splits)
  show ?thesis
    using g by (auto simp: nslookup_def Let_def split: gai_result.split option.split)
qed

theorem nslookup_returns_witness:
  "nslookup demo_env (stale ''gone.example.com'') demo_world =
     (1, stale ''gone.example.com'', demo_world\<lparr>trace := [Getaddrinfo ''gone.example.com'']\<rparr>) \<and>
   nslookup demo_env (stale ''new.example.com'') demo_world =
     (0, (stale ''new.example.com'')\<lparr>address := ''198.51.100.4''\<rparr>,
      demo_world\<lparr>trace := [Getaddrinfo ''new.example.com'']\<rparr>)"
proof -
  have l1: "lookup demo_env (name (stale ''gone.example.com'')) = GaiError (- 2)"
    by (simp add: demo_defs)
  have l2: "lookup demo_env (name (stale ''new.example.com'')) = GaiOk 1 [7]"
    by (simp add: demo_defs)
  have g: "getnameinfo demo_env 1 (MAX_ADDRESS_LEN demo_env) = Some ''198.51.100.4''"
    by (simp add: demo_defs)
  have t: "trace demo_world = []" by (simp add: demo_world_def)
  have n: "name (stale ''gone.example.com'') = ''gone.example.com''"
    "name (stale ''new.example.com'') = ''new.example.com''"
    by (simp_all add: stale_def)
  have "nslookup demo_env (stale ''gone.example.com'') demo_world =
     (1, stale ''gone.example.com'', demo_world\<lparr>trace := [Getaddrinfo ''gone.example.com'']\<rparr>)"
    using nslookup_returns[of demo_env "stale ''gone.example.com''" demo_world] l1 t n
    by (simp add: prod_eq_iff)
  moreover have "nslookup demo_env (stale ''new.example.com'') demo_world =
     (0, (stale ''new.example.com'')\<lparr>address := ''198.51.100.4''\<rparr>,
      demo_world\<lparr>trace := [Getaddrinfo ''new.example.com'']\<rparr>)"
    using nslookup_returns[of demo_env "stale ''new.example.com''" demo_world] l2 g t n
    by (simp add: prod_eq_iff)
  ultimately show ?thesis by blast
qed

subsection \<open>The entry point\<close>

text \<open>
  C6. Where \<^verbatim>\<open>RC_INVALID_POINTER\<close> is not 0, \<^verbatim>\<open>read_cache_file\<close> returns it if and
  only if the context is the null pointer; it then hands back no context and has called
  \<^verbatim>\<open>res_init\<close> and nothing else, so no alias was read. On any other context it returns
  0, whatever the files and the resolver are.
\<close>

theorem read_cache_file_status:
  assumes "RC_INVALID_POINTER e \<noteq> 0"
  shows "(fst (read_cache_file e ctx w) = RC_INVALID_POINTER e) = (ctx = None) \<and>
         (ctx = None \<longrightarrow>
            read_cache_file e ctx w = (RC_INVALID_POINTER e, None, w\<lparr>trace := trace w @ [Res_init]\<rparr>)) \<and>
         (ctx \<noteq> None \<longrightarrow> fst (read_cache_file e ctx w) = 0)"
proof (cases ctx)
  case None
  then show ?thesis by (simp add: read_cache_file_None res_init_def)
next
  case (Some c)
  then show ?thesis using assms by (simp add: read_cache_file_Some)
qed

theorem read_cache_file_status_witness:
  "RC_INVALID_POINTER demo_env = 2 \<and>
   read_cache_file demo_env None demo_world = (2, None, demo_world\<lparr>trace := [Res_init]\<rparr>) \<and>
   fst (read_cache_file demo_env (Some demo_ctx) demo_world) = 0"
proof -
  have rc: "RC_INVALID_POINTER demo_env = 2" by (simp add: demo_env_def)
  then have nz: "RC_INVALID_POINTER demo_env \<noteq> 0" by simp
  have t: "trace demo_world = []" by (simp add: demo_world_def)
  have "read_cache_file demo_env None demo_world = (2, None, demo_world\<lparr>trace := [Res_init]\<rparr>)"
    using read_cache_file_status[OF nz, of None demo_world] rc t by simp
  moreover have "fst (read_cache_file demo_env (Some demo_ctx) demo_world) = 0"
    using read_cache_file_status[OF nz, of "Some demo_ctx" demo_world] by simp
  ultimately show ?thesis using rc by blast
qed

text \<open>
  C7. Every call of \<^verbatim>\<open>read_cache_file\<close> calls \<^verbatim>\<open>res_init\<close> exactly once, and first:
  the calls it adds are \<^verbatim>\<open>res_init\<close> followed by the file openings and lookups of the
  aliases, none of which is another \<^verbatim>\<open>res_init\<close>.
\<close>

theorem res_init_once_and_first:
  "\<exists>evs. trace (snd (snd (read_cache_file e ctx w))) = trace w @ Res_init # evs \<and>
         Res_init \<notin> set evs"
proof (cases ctx)
  case None
  then show ?thesis by (simp add: read_cache_file_None res_init_def)
next
  case (Some c)
  obtain evs where "trace (snd (read_infos e (info c) (res_init w))) = trace (res_init w) @ evs"
    and "Res_init \<notin> set evs"
    using read_infos_trace[of e "info c" "res_init w"] by blast
  with Some show ?thesis by (simp add: read_cache_file_Some res_init_def)
qed

theorem res_init_once_and_first_witness:
  "trace (snd (snd (read_cache_file demo_env (Some demo_ctx) demo_world))) = Res_init # tl demo_calls \<and>
   Res_init \<notin> set (tl demo_calls) \<and> length (tl demo_calls) = 9"
proof -
  obtain evs where e: "trace (snd (snd (read_cache_file demo_env (Some demo_ctx) demo_world))) =
      trace demo_world @ Res_init # evs" and n: "Res_init \<notin> set evs"
    using res_init_once_and_first[of demo_env "Some demo_ctx" demo_world] by blast
  have "trace (snd (snd (read_cache_file demo_env (Some demo_ctx) demo_world))) = demo_calls"
    by (simp add: demo_seed)
  moreover have "trace demo_world = []" by (simp add: demo_world_def)
  moreover have "demo_calls = Res_init # tl demo_calls" "length (tl demo_calls) = 9"
    by (simp_all add: demo_calls_def)
  ultimately show ?thesis using e n by (metis append_Nil list.inject)
qed

subsection \<open>Writing the cache file\<close>

text \<open>
  C8, as the specification has it: whatever address within the length of the buffer is
  written, a write that returns success followed by a read gives it back. It does not,
  in two cases. When the address has a line break before its last character:
  \<^verbatim>\<open>write_cache_file\<close> returns 0 on the three characters \<^verbatim>\<open>a\<close>, newline, \<^verbatim>\<open>b\<close>
  and stores them, and \<^verbatim>\<open>read_one\<close> then reads the first line only. And when the bytes
  do not reach the file: \<^verbatim>\<open>write_cache_file\<close> returns 0 as soon as \<^verbatim>\<open>fopen\<close> has
  succeeded, without a look at what \<^verbatim>\<open>fprintf\<close> and \<^verbatim>\<open>fclose\<close> report, so where
  there is no room it leaves an empty file, which is then read as a cache hit with an
  empty address.
\<close>

theorem write_then_read_fails:
  "fst (write_cache_file demo_env two_lines demo_world) = 0 \<and>
   address two_lines = [CHR ''a'', newline, CHR ''b''] \<and>
   length (address two_lines) < MAX_ADDRESS_LEN demo_env \<and>
   address (fst (read_one demo_env two_lines False
                  (snd (snd (write_cache_file demo_env two_lines demo_world))))) =
     [CHR ''a'', newline] \<and>
   address (fst (read_one demo_env two_lines False
                  (snd (snd (write_cache_file demo_env two_lines demo_world))))) \<noteq>
     address two_lines \<and>
   address (stale ''full.example.com'') = ''10.9.8.7'' \<and>
   fst (write_cache_file demo_env (stale ''full.example.com'') demo_world) = 0 \<and>
   files (snd (snd (write_cache_file demo_env (stale ''full.example.com'') demo_world)))
       ''/var/run/inadyn/full.example.com.cache'' =
     Some \<lparr>content = [], st_mtime = Some 1700001000\<rparr> \<and>
   fst (read_one demo_env (stale ''full.example.com'') False
         (snd (snd (write_cache_file demo_env (stale ''full.example.com'') demo_world)))) =
     \<lparr>name = ''full.example.com'', address = [], last_update = 1700001000\<rparr>"
  by (simp add: demo_defs)

text \<open>
  C8, amended. For every alias and every address that is a C string shorter than
  \<^verbatim>\<open>MAX_ADDRESS_LEN\<close> with no newline before its last character: after a successful
  write, that is after \<^verbatim>\<open>write_cache_file\<close> has returned 0 for the alias and the file
  had room for all the bytes of the address, \<^verbatim>\<open>read_one\<close> on an alias of that name
  yields this address, and a \<^verbatim>\<open>last_update\<close> equal to the modification time that the
  write gave the file, the time of the write.
\<close>

theorem write_then_read:
  assumes "write_cache_file e a w = (0, a1, w1)"
    and "length (address a) \<le> room e (cache_path e a)"
    and "NUL \<notin> set (address a)"
    and "length (address a) < MAX_ADDRESS_LEN e"
    and "newline \<notin> set (butlast (address a))"
    and "name x = name a"
  shows "address (fst (read_one e x ns w1)) = address a \<and>
         last_update (fst (read_one e x ns w1)) = clock w \<and>
         map_option st_mtime (files w1 (cache_path e a)) = Some (Some (clock w))"
proof -
  have ok: "can_write e (cache_path e a)"
    using assms(1) by (auto simp: write_cache_file_def fopen_w_def Let_def split: if_splits)
  have w1: "w1 = fprintf_s e (cache_path e a) (address a) (snd (fopen_w e (cache_path e a) w))"
    using assms(1) ok by (auto simp: write_cache_file_def fopen_w_def Let_def)
  have f: "files w1 (cache_path e a) = Some \<lparr>content = address a, st_mtime = Some (clock w)\<rparr>"
    using ok assms(2,3) by (simp add: w1 fopen_w_def fprintf_s_def Let_def cstr_id)
  have p: "cache_path e x = cache_path e a"
    using assms(6) by (simp add: cache_path_def)
  have line: "read_line (MAX_ADDRESS_LEN e - 1) (address a) = address a"
    using assms(4,5) by (intro read_line_id) simp_all
  have "fst (read_one e x ns w1) =
      x\<lparr>last_update := clock w, address := cstr (read_line (MAX_ADDRESS_LEN e - 1) (address a))\<rparr>"
    using read_one_hit[of w1 e x _ ns] f p by simp
  then show ?thesis using line assms(3) f by (simp add: cstr_id)
qed

theorem write_then_read_witness:
  "write_cache_file demo_env (stale ''new.example.com'') demo_world =
     (0, stale ''new.example.com'', snd (snd (write_cache_file demo_env (stale ''new.example.com'') demo_world))) \<and>
   address (stale ''new.example.com'') = ''10.9.8.7'' \<and>
   length ''10.9.8.7'' \<le> room demo_env (cache_path demo_env (stale ''new.example.com'')) \<and>
   NUL \<notin> set ''10.9.8.7'' \<and> length ''10.9.8.7'' < MAX_ADDRESS_LEN demo_env \<and>
   newline \<notin> set (butlast ''10.9.8.7'') \<and>
   address (fst (read_one demo_env \<lparr>name = ''new.example.com'', address = [], last_update = 0\<rparr> False
                  (snd (snd (write_cache_file demo_env (stale ''new.example.com'') demo_world))))) =
     ''10.9.8.7'' \<and>
   last_update (fst (read_one demo_env \<lparr>name = ''new.example.com'', address = [], last_update = 0\<rparr> False
                  (snd (snd (write_cache_file demo_env (stale ''new.example.com'') demo_world))))) =
     1700001000"
proof -
  let ?a = "stale ''new.example.com''"
  let ?x = "\<lparr>name = ''new.example.com'', address = [], last_update = 0\<rparr>"
  have wr: "write_cache_file demo_env ?a demo_world =
     (0, ?a, snd (snd (write_cache_file demo_env ?a demo_world)))"
    by (simp add: demo_defs)
  have ad: "address ?a = ''10.9.8.7''" by (simp add: stale_def)
  have rm: "length ''10.9.8.7'' \<le> room demo_env (cache_path demo_env ?a)"
    by (simp add: demo_defs)
  have h: "NUL \<notin> set ''10.9.8.7''" "length ''10.9.8.7'' < MAX_ADDRESS_LEN demo_env"
    "newline \<notin> set (butlast ''10.9.8.7'')"
    by (simp_all add: demo_defs)
  have n: "name ?x = name ?a" by (simp add: stale_def)
  have c: "clock demo_world = 1700001000" by (simp add: demo_world_def)
  from write_then_read[OF wr _ _ _ _ n, of False] ad rm h c
  have "address (fst (read_one demo_env ?x False (snd (snd (write_cache_file demo_env ?a demo_world))))) =
      ''10.9.8.7'' \<and>
    last_update (fst (read_one demo_env ?x False (snd (snd (write_cache_file demo_env ?a demo_world))))) =
      1700001000"
    by simp
  with wr ad rm h show ?thesis by blast
qed

text \<open>
  C10. \<^verbatim>\<open>write_cache_file\<close> changes no field of the alias it is given: the alias is the
  same after the call as before, \<^verbatim>\<open>name\<close>, \<^verbatim>\<open>address\<close> and \<^verbatim>\<open>last_update\<close>,
  whether the call returns 0 (written) or 1 (the file could not be opened).
\<close>

theorem write_cache_file_frame:
  "fst (snd (write_cache_file e a w)) = a \<and>
   name (fst (snd (write_cache_file e a w))) = name a \<and>
   address (fst (snd (write_cache_file e a w))) = address a \<and>
   last_update (fst (snd (write_cache_file e a w))) = last_update a \<and>
   fst (write_cache_file e a w) = (if can_write e (cache_path e a) then 0 else 1)"
  by (simp add: write_cache_file_def fopen_w_def Let_def)

theorem write_cache_file_frame_witness:
  "fst (write_cache_file demo_env (stale ''home.example.com'') demo_world) = 0 \<and>
   fst (snd (write_cache_file demo_env (stale ''home.example.com'') demo_world)) =
     stale ''home.example.com'' \<and>
   fst (write_cache_file demo_env (stale ''locked.example.com'') demo_world) = 1 \<and>
   fst (snd (write_cache_file demo_env (stale ''locked.example.com'') demo_world)) =
     stale ''locked.example.com''"
proof -
  have "can_write demo_env (cache_path demo_env (stale ''home.example.com''))"
    "\<not> can_write demo_env (cache_path demo_env (stale ''locked.example.com''))"
    by (simp_all add: demo_defs)
  then show ?thesis
    using write_cache_file_frame[of demo_env "stale ''home.example.com''" demo_world]
      write_cache_file_frame[of demo_env "stale ''locked.example.com''" demo_world]
    by simp
qed

subsection \<open>The cache file of earlier versions\<close>

text \<open>
  C2. The comment at the head of \<^verbatim>\<open>cache.c\<close> promises that the old, single cache file
  is read at startup and then removed. Nothing in \<^verbatim>\<open>read_cache_file\<close> does so. Here
  \<^verbatim>\<open>gone.example.com\<close> has no cache file of its own and the old file is there, with an
  address and a time: seeding opens the alias's own path only, falls back to the lookup,
  which fails, and leaves the alias empty and the old file in place.
\<close>

theorem legacy_cache_file_ignored:
  "files demo_world ''/var/run/inadyn/gone.example.com.cache'' = None \<and>
   files demo_world ''/var/run/inadyn/inadyn.cache'' =
     Some \<lparr>content = ''192.0.2.1'', st_mtime = Some 1600000000\<rparr> \<and>
   read_cache_file demo_env (Some legacy_ctx) demo_world =
     (0,
      Some \<lparr>info = [\<lparr>system_name = ''default@dyndns.org'',
                      aliases = [\<lparr>name = ''gone.example.com'', address = [], last_update = 0\<rparr>]\<rparr>]\<rparr>,
      demo_world\<lparr>trace := [Res_init, Fopen_r ''/var/run/inadyn/gone.example.com.cache'',
                            Getaddrinfo ''gone.example.com'']\<rparr>) \<and>
   files (snd (snd (read_cache_file demo_env (Some legacy_ctx) demo_world)))
       ''/var/run/inadyn/inadyn.cache'' =
     Some \<lparr>content = ''192.0.2.1'', st_mtime = Some 1600000000\<rparr>"
  by (simp add: demo_defs)

end
